theory Spec2Isabelle
  imports Main
begin

section \<open>Data model\<close>

text \<open>
  The application keeps its authentication state in the \<open>express-session\<close> object
  \<open>req.session\<close>. Two login flows write to it: the router module
  (\<open>routes/auth.mjs\<close>) uses the fields \<open>pkceCodes\<close> and \<open>user\<close>, the flow written
  inline in the entry point uses \<open>codeVerifier\<close> and \<open>accessToken\<close>. A field that
  JavaScript leaves \<open>undefined\<close> is \<open>None\<close>.
\<close>

type_synonym env = "string \<rightharpoonup> string"

datatype js_error =
    TypeError string
  | Error string
  | AuthError string string
  | HttpError string

text \<open>The account object of an MSAL token response, with the fields the router copies.\<close>

record account_info =
  name :: string
  username :: string
  tenantId :: string
  environment :: string
  homeAccountId :: string

record token_response =
  resp_account :: "account_info option"
  resp_accessToken :: string

record pkce_codes =
  challengeMethod :: string
  verifier :: "string option"
  challenge :: "string option"

record user_rec =
  account :: "account_info option"
  user_accessToken :: string

record session =
  pkceCodes :: "pkce_codes option"
  user :: "user_rec option"
  codeVerifier :: "string option"
  accessToken :: "string option"

record query =
  code :: "string option"
  state :: "string option"
  client_info :: "string option"

record token_request =
  tr_code :: "string option"
  tr_scopes :: "string list"
  tr_redirectUri :: "string option"
  tr_codeVerifier :: "string option"
  tr_clientInfo :: "string option"

record auth_code_url_parameters =
  ap_scopes :: "string list"
  ap_redirectUri :: "string option"
  ap_codeChallenge :: "string option"
  ap_codeChallengeMethod :: "string option"

text \<open>The JavaScript values that travel from the Graph API to the account page.\<close>

datatype jsval = JNull | JString string | JObject "(string \<times> string) list"

datatype account_view = EmptyObject | AccountOf account_info

datatype response =
    Redirect string
  | RenderError string js_error bool "account_info option"
  | RenderAccount account_view string jsval jsval
  | SendStatus nat string
  | Unhandled js_error

text \<open>
  What one run of a route handler leaves behind: the session object, the response, and
  the requests it sent to the identity provider's token endpoint, in order.
\<close>

record handled =
  sess :: session
  resp :: response
  token_calls :: "token_request list"

definition empty_session :: session where
  "empty_session = \<lparr>pkceCodes = None, user = None, codeVerifier = None, accessToken = None\<rparr>"

text \<open>JavaScript truthiness of a value that is a string or \<open>undefined\<close>.\<close>

definition truthy :: "string option \<Rightarrow> bool" where
  "truthy v = (case v of None \<Rightarrow> False | Some t \<Rightarrow> t \<noteq> [])"

section \<open>The router module, \<open>routes/auth.mjs\<close>\<close>

definition AUTH_SCOPES :: "string list" where
  "AUTH_SCOPES = [''user.read'']"

definition AUTH_CALLBACK_PATH :: string where
  "AUTH_CALLBACK_PATH = ''signin''"

text \<open>The optional chain \<open>req.session?.user?.account\<close>.\<close>

definition session_user_account :: "session option \<Rightarrow> account_info option" where
  "session_user_account so =
     (case so of
        None \<Rightarrow> None
      | Some s \<Rightarrow> (case user s of None \<Rightarrow> None | Some u \<Rightarrow> account u))"

datatype decision = Next | Respond response

text \<open>
  The middleware receives the request's session and hands it on; the first component of
  the result is the session as the middleware leaves it.
\<close>

definition ensureAuthenticated :: "session option \<Rightarrow> session option \<times> decision" where
  "ensureAuthenticated so =
     (if session_user_account so = None then (so, Respond (Redirect ''/login''))
      else (so, Next))"

text \<open>
  \<open>GET /login\<close>. The outcome of \<open>cryptoProvider.generatePkceCodes()\<close> and the function
  \<open>msalApp.getAuthCodeUrl\<close> belong to the MSAL library and are parameters. Everything
  from the PKCE generation on is inside the handler's \<open>try\<close>.
\<close>

definition login :: "env \<Rightarrow> (js_error + string \<times> string) \<Rightarrow>
    (auth_code_url_parameters \<Rightarrow> js_error + string) \<Rightarrow> session \<Rightarrow> handled" where
  "login penv generatePkceCodes getAuthCodeUrl s =
     (let redirectUri = penv ''AUTH_REDIRECT_URI'';
          on_error = (\<lambda>s' err. \<lparr>sess = s',
             resp = RenderError ''PKCE redirect error'' err
                      (session_user_account (Some s') \<noteq> None) (session_user_account (Some s')),
             token_calls = []\<rparr>)
      in case generatePkceCodes of
           Inl err \<Rightarrow> on_error s err
         | Inr (v, c) \<Rightarrow>
             (let codes = (case pkceCodes s of
                             None \<Rightarrow> \<lparr>challengeMethod = ''S256'', verifier = None, challenge = None\<rparr>
                           | Some p \<Rightarrow> p);
                  codes' = codes\<lparr>verifier := Some v, challenge := Some c\<rparr>;
                  s' = s\<lparr>pkceCodes := Some codes'\<rparr>;
                  authCodeUrlParameters = \<lparr>ap_scopes = AUTH_SCOPES, ap_redirectUri = redirectUri,
                     ap_codeChallenge = challenge codes',
                     ap_codeChallengeMethod = Some (challengeMethod codes')\<rparr>
              in case getAuthCodeUrl authCodeUrlParameters of
                   Inl err \<Rightarrow> on_error s' err
                 | Inr authCodeUrl \<Rightarrow>
                     if authCodeUrl = []
                     then on_error s' (Error ''ERROR! Failed to get auth code url'')
                     else \<lparr>sess = s', resp = Redirect authCodeUrl, token_calls = []\<rparr>))"

text \<open>
  \<open>GET /signin\<close>. The token request is built before the \<open>try\<close>: reading
  \<open>req.session.pkceCodes.verifier\<close> on a session without \<open>pkceCodes\<close> throws a
  TypeError that no handler catches. \<open>msalApp.acquireTokenByCode\<close> is a parameter. A
  response without an account makes \<open>tokenResponse.account.name\<close> throw inside the
  \<open>try\<close>.
\<close>

definition tokenRequest :: "env \<Rightarrow> query \<Rightarrow> pkce_codes \<Rightarrow> token_request" where
  "tokenRequest penv q p =
     \<lparr>tr_code = code q, tr_scopes = AUTH_SCOPES, tr_redirectUri = penv ''AUTH_REDIRECT_URI'',
      tr_codeVerifier = verifier p, tr_clientInfo = client_info q\<rparr>"

definition signin :: "env \<Rightarrow> (token_request \<Rightarrow> js_error + token_response) \<Rightarrow>
    query \<Rightarrow> session \<Rightarrow> handled" where
  "signin penv acquireTokenByCode q s =
     (case pkceCodes s of
        None \<Rightarrow> \<lparr>sess = s,
                 resp = Unhandled (TypeError ''Cannot read properties of undefined (reading verifier)''),
                 token_calls = []\<rparr>
      | Some p \<Rightarrow>
          (let on_error = (\<lambda>err. \<lparr>sess = s,
                 resp = RenderError ''Authentication Error'' err False None,
                 token_calls = [tokenRequest penv q p]\<rparr>)
           in case acquireTokenByCode (tokenRequest penv q p) of
                Inl err \<Rightarrow> on_error err
              | Inr tokenResponse \<Rightarrow>
                  (case resp_account tokenResponse of
                     None \<Rightarrow> on_error (TypeError ''Cannot read properties of null (reading name)'')
                   | Some a \<Rightarrow>
                       \<lparr>sess = s\<lparr>user := Some \<lparr>account = Some \<lparr>name = name a,
                                  username = username a, tenantId = tenantId a,
                                  environment = environment a,
                                  homeAccountId = homeAccountId a\<rparr>,
                                user_accessToken = resp_accessToken tokenResponse\<rparr>\<rparr>,
                        resp = Redirect ''/account'',
                        token_calls = [tokenRequest penv q p]\<rparr>)))"

section \<open>The flow written inline in the entry point\<close>

text \<open>
  One variant of the entry point registers its own \<open>/login\<close>, \<open>/signin\<close>,
  \<open>/logout\<close> and two guarded pages with \<open>app.get\<close>, on a client built from the
  imported \<open>authConfig\<close>. The random bytes, the hash and the base64url encoding come
  from Node's \<open>crypto\<close> and are parameters.
\<close>

definition inline_redirectUri :: string where
  "inline_redirectUri =
     ''https://nodejs-demoapp.lemonrock-97154e27.canadacentral.azurecontainerapps.io/signin''"

definition generateCodeVerifier :: "'b \<Rightarrow> ('b \<Rightarrow> string) \<Rightarrow> string" where
  "generateCodeVerifier randomBytes32 base64url = base64url randomBytes32"

definition generateCodeChallenge :: "(string \<Rightarrow> string) \<Rightarrow> string \<Rightarrow> string" where
  "generateCodeChallenge sha256_base64url cv = sha256_base64url cv"

definition inline_login :: "'b \<Rightarrow> ('b \<Rightarrow> string) \<Rightarrow> (string \<Rightarrow> string) \<Rightarrow>
    (auth_code_url_parameters \<Rightarrow> js_error + string) \<Rightarrow> session \<Rightarrow> handled" where
  "inline_login randomBytes32 base64url sha256_base64url getAuthCodeUrl s =
     (let cv = generateCodeVerifier randomBytes32 base64url;
          codeChallenge = generateCodeChallenge sha256_base64url cv;
          s' = s\<lparr>codeVerifier := Some cv\<rparr>;
          authCodeUrlParameters = \<lparr>ap_scopes = [''user.read''],
             ap_redirectUri = Some inline_redirectUri,
             ap_codeChallenge = Some codeChallenge,
             ap_codeChallengeMethod = Some ''S256''\<rparr>
      in case getAuthCodeUrl authCodeUrlParameters of
           Inr response \<Rightarrow> \<lparr>sess = s', resp = Redirect response, token_calls = []\<rparr>
         | Inl error \<Rightarrow> \<lparr>sess = s',
             resp = SendStatus 500 ''Authentication initialization failed'',
             token_calls = []\<rparr>)"

definition inline_tokenRequest :: "query \<Rightarrow> session \<Rightarrow> token_request" where
  "inline_tokenRequest q s =
     \<lparr>tr_code = code q, tr_scopes = [''user.read''], tr_redirectUri = Some inline_redirectUri,
      tr_codeVerifier = codeVerifier s, tr_clientInfo = None\<rparr>"

definition inline_signin :: "(token_request \<Rightarrow> js_error + token_response) \<Rightarrow>
    query \<Rightarrow> session \<Rightarrow> handled" where
  "inline_signin acquireTokenByCode q s =
     (case acquireTokenByCode (inline_tokenRequest q s) of
        Inr response \<Rightarrow>
          \<lparr>sess = s\<lparr>accessToken := Some (resp_accessToken response)\<rparr>,
           resp = Redirect ''/'', token_calls = [inline_tokenRequest q s]\<rparr>
      | Inl error \<Rightarrow>
          \<lparr>sess = s, resp = Redirect ''/login'', token_calls = [inline_tokenRequest q s]\<rparr>)"

text \<open>
  The inline guard reads \<open>req.session.accessToken\<close>; this entry point installs the
  session middleware with its default in-memory store before the routes, so the session
  object is always there.
\<close>

definition inline_ensureAuthenticated :: "session \<Rightarrow> session \<times> decision" where
  "inline_ensureAuthenticated s =
     (if truthy (accessToken s) then (s, Next)
      else (s, Respond (Redirect ''/login'')))"

section \<open>The session store and logout\<close>

text \<open>
  \<open>express-session\<close> keeps the records in a store keyed by the session identifier of
  the cookie. A request whose cookie names no stored record gets a new, empty session;
  \<open>req.session.destroy\<close> removes the record of the current identifier from the store.
\<close>

type_synonym store = "string \<rightharpoonup> session"

definition load_session :: "store \<Rightarrow> string option \<Rightarrow> session" where
  "load_session st cookie =
     (case cookie of
        None \<Rightarrow> empty_session
      | Some sid \<Rightarrow> (case st sid of None \<Rightarrow> empty_session | Some s \<Rightarrow> s))"

definition session_destroy :: "store \<Rightarrow> string \<Rightarrow> store" where
  "session_destroy st sid = st(sid := None)"

definition logout :: "store \<Rightarrow> string \<Rightarrow> store \<times> response" where
  "logout st sid = (session_destroy st sid, Redirect ''/'')"

text \<open>A template literal prints an unset environment variable as \<open>undefined\<close>.\<close>

definition env_text :: "env \<Rightarrow> string \<Rightarrow> string" where
  "env_text penv k = (case penv k of None \<Rightarrow> ''undefined'' | Some v \<Rightarrow> v)"

definition inline_logout :: "env \<Rightarrow> (string \<Rightarrow> string) \<Rightarrow> store \<Rightarrow> string \<Rightarrow>
    store \<times> response" where
  "inline_logout penv encodeURIComponent st sid =
     (let logoutUri = ''https://'' @ env_text penv ''WEBSITE_HOSTNAME'';
          logoutUrl = ''https://login.microsoftonline.com/'' @ env_text penv ''AZURE_TENANT_ID''
             @ ''/oauth2/v2.0/logout?post_logout_redirect_uri='' @ encodeURIComponent logoutUri
      in (session_destroy st sid, Redirect logoutUrl))"

text \<open>
  A request to a guarded route: the session middleware loads the session of the cookie,
  then the guard decides whether the guarded handler runs.
\<close>

definition protected_request :: "store \<Rightarrow> string option \<Rightarrow> decision" where
  "protected_request st cookie = snd (ensureAuthenticated (Some (load_session st cookie)))"

definition inline_protected_request :: "store \<Rightarrow> string option \<Rightarrow> decision" where
  "inline_protected_request st cookie = snd (inline_ensureAuthenticated (load_session st cookie))"

section \<open>The Graph helper and the account page\<close>

text \<open>
  \<open>axios\<close> is a parameter: it answers a request with the response data or rejects.
  The helpers return \<open>Inr v\<close> when they return \<open>v\<close> and \<open>Inl e\<close> when they throw;
  \<open>JNull\<close> is JavaScript's \<open>null\<close>.
\<close>

record graph_request =
  url :: string
  responseType :: "string option"
  authorization :: string

definition details_graphReq :: "string \<Rightarrow> graph_request" where
  "details_graphReq t =
     \<lparr>url = ''https://graph.microsoft.com/v1.0/me'', responseType = None,
      authorization = ''Bearer '' @ t\<rparr>"

definition getUserDetails :: "(graph_request \<Rightarrow> js_error + jsval) \<Rightarrow> string option \<Rightarrow>
    js_error + jsval" where
  "getUserDetails axios tok =
     (case tok of
        None \<Rightarrow> Inr JNull
      | Some t \<Rightarrow>
          if t = [] then Inr JNull
          else (case axios (details_graphReq t) of
                  Inr data \<Rightarrow> Inr data
                | Inl err \<Rightarrow> Inr JNull))"

text \<open>
  \<open>Buffer.from(resp.data, 'binary').toString('base64')\<close> is the parameter \<open>to_base64\<close>;
  it runs inside the \<open>try\<close>, so its exception is caught as well.
\<close>

definition photo_graphReq :: "string \<Rightarrow> graph_request" where
  "photo_graphReq t =
     \<lparr>url = ''https://graph.microsoft.com/v1.0/me/photo/$value'',
      responseType = Some ''arraybuffer'', authorization = ''Bearer '' @ t\<rparr>"

definition getUserPhoto :: "(graph_request \<Rightarrow> js_error + jsval) \<Rightarrow> (jsval \<Rightarrow> js_error + string) \<Rightarrow>
    string option \<Rightarrow> js_error + jsval" where
  "getUserPhoto axios to_base64 tok =
     (case tok of
        None \<Rightarrow> Inr JNull
      | Some t \<Rightarrow>
          if t = [] then Inr JNull
          else (case axios (photo_graphReq t) of
                  Inr data \<Rightarrow> (case to_base64 data of Inr b \<Rightarrow> Inr (JString b) | Inl err \<Rightarrow> Inr JNull)
                | Inl err \<Rightarrow> Inr JNull))"

definition js_falsy :: "jsval \<Rightarrow> bool" where
  "js_falsy v = (case v of JNull \<Rightarrow> True | JString t \<Rightarrow> t = [] | JObject kvs \<Rightarrow> False)"

text \<open>
  \<open>GET /account\<close>, behind the guard. \<open>details\<close> starts as the empty object and
  \<open>photo\<close> as \<open>null\<close>; an exception of a helper is caught and leaves what was
  assigned before it.
\<close>

definition account_route :: "(graph_request \<Rightarrow> js_error + jsval) \<Rightarrow> (jsval \<Rightarrow> js_error + string) \<Rightarrow>
    session option \<Rightarrow> response" where
  "account_route axios to_base64 so =
     (case ensureAuthenticated so of
        (so', Respond r) \<Rightarrow> r
      | (so', Next) \<Rightarrow>
          (case so' of
             None \<Rightarrow> Unhandled (TypeError ''Cannot read properties of undefined (reading user)'')
           | Some s \<Rightarrow>
               (case user s of
                  None \<Rightarrow> Unhandled (TypeError ''Cannot read properties of undefined (reading accessToken)'')
                | Some u \<Rightarrow>
                    (let tok = Some (user_accessToken u);
                         (details, photo) =
                            (case getUserDetails axios tok of
                               Inl err \<Rightarrow> (JObject [], JNull)
                             | Inr d \<Rightarrow>
                                 (case getUserPhoto axios to_base64 tok of
                                    Inl err \<Rightarrow> (d, JNull)
                                  | Inr ph \<Rightarrow> (d, ph)))
                     in RenderAccount
                          (case account u of None \<Rightarrow> EmptyObject | Some a \<Rightarrow> AccountOf a)
                          (user_accessToken u)
                          (if js_falsy details then JObject [] else details)
                          photo))))"

section \<open>Route registration in the entry point\<close>

text \<open>
  A registered route is its path and the module that registered it. The routers of the
  API, the todo list and the metrics are not part of this development and are parameters.
\<close>

datatype origin = Entry | Pages | Api | Auth | Todo | Metrics

type_synonym route = "string \<times> origin"

definition authRoutes :: "route list" where
  "authRoutes = map (\<lambda>p. (p, Auth))
     [''/login'', ''/'' @ AUTH_CALLBACK_PATH, ''/logout'', ''/account'', ''/auth-status'',
      ''/debug-session'']"

definition pageRoutes :: "route list" where
  "pageRoutes = map (\<lambda>p. (p, Pages))
     [''/'', ''/info'', ''/monitor'', ''/weather'', ''/tools'', ''/tools/load'', ''/tools/error'',
      ''/tools/gc'', ''/hello'']"

definition mounted_tail :: "env \<Rightarrow> string list \<Rightarrow> string list \<Rightarrow> string list \<Rightarrow> route list" where
  "mounted_tail penv metrics api todo =
     (if penv ''DISABLE_METRICS'' \<noteq> Some ''true'' then map (\<lambda>p. (p, Metrics)) metrics else [])
     @ pageRoutes
     @ map (\<lambda>p. (p, Api)) api
     @ (if truthy (penv ''ENTRA_APP_ID'') then authRoutes else [])
     @ (if truthy (penv ''TODO_MONGO_CONNSTR'') then map (\<lambda>p. (p, Todo)) todo else [])"

text \<open>The entry point that leaves authentication to the router module.\<close>

definition server_routes :: "env \<Rightarrow> string list \<Rightarrow> string list \<Rightarrow> string list \<Rightarrow> route list" where
  "server_routes penv metrics api todo =
     map (\<lambda>p. (p, Entry)) [''/'', ''/health''] @ mounted_tail penv metrics api todo"

text \<open>The entry point that also carries the inline flow.\<close>

definition inline_server_routes :: "env \<Rightarrow> string list \<Rightarrow> string list \<Rightarrow> string list \<Rightarrow> route list" where
  "inline_server_routes penv metrics api todo =
     map (\<lambda>p. (p, Entry)) [''/login'', ''/signin'', ''/'', ''/protected'', ''/logout'', ''/health'']
     @ mounted_tail penv metrics api todo"

definition auth_paths :: "string list" where
  "auth_paths = [''/login'', ''/signin'', ''/logout'', ''/account'']"

section \<open>Runs of the router flow\<close>

text \<open>
  A browser session lives through a sequence of requests to the three routes. Each event
  carries what the outside world answers during that request. After \<open>/logout\<close> the
  record is gone from the store and the next request of the same cookie loads a new
  session.
\<close>

datatype event =
    Login env "js_error + string \<times> string" "auth_code_url_parameters \<Rightarrow> js_error + string"
  | Signin env "token_request \<Rightarrow> js_error + token_response" query
  | Logout string

fun step :: "session \<Rightarrow> event \<Rightarrow> session" where
  "step s (Login penv g u) = sess (login penv g u s)"
| "step s (Signin penv acq q) = sess (signin penv acq q s)"
| "step s (Logout sid) = load_session (fst (logout (Map.empty(sid \<mapsto> s)) sid)) (Some sid)"

definition run :: "event list \<Rightarrow> session" where
  "run evs = foldl step empty_session evs"

definition pkce_present :: "session \<Rightarrow> bool" where
  "pkce_present s =
     (case pkceCodes s of
        None \<Rightarrow> False
      | Some p \<Rightarrow> verifier p \<noteq> None \<and> challenge p \<noteq> None)"

definition identity_present :: "session \<Rightarrow> bool" where
  "identity_present s = (session_user_account (Some s) \<noteq> None)"

definition inline_isAuthenticated :: "session \<Rightarrow> bool" where
  "inline_isAuthenticated s = truthy (accessToken s)"

text \<open>
  Whether the provider answers the router's token request of this callback with a token
  response that carries an account.
\<close>

definition provider_accepts :: "env \<Rightarrow> (token_request \<Rightarrow> js_error + token_response) \<Rightarrow>
    query \<Rightarrow> session \<Rightarrow> bool" where
  "provider_accepts penv acq q s =
     (case pkceCodes s of
        None \<Rightarrow> False
      | Some p \<Rightarrow>
          (case acq (tokenRequest penv q p) of
             Inl e \<Rightarrow> False
           | Inr tr \<Rightarrow> resp_account tr \<noteq> None))"

text \<open>
  What holds of every session of a run: an identity is stored only beside a complete
  PKCE pair, and a PKCE object in the session is always complete.
\<close>

definition session_inv :: "session \<Rightarrow> bool" where
  "session_inv s =
     ((identity_present s \<longrightarrow> pkce_present s) \<and> (pkceCodes s \<noteq> None \<longrightarrow> pkce_present s))"

section \<open>Scenario data\<close>

text \<open>
  Fixed answers of the outside world, used to run the handlers on concrete requests: an
  identity provider that accepts every token request, one that rejects every token
  request as \<open>invalid_grant\<close>, and a Graph endpoint that is down.
\<close>

definition alice :: account_info where
  "alice = \<lparr>name = ''Alice'', username = ''alice@example.com'', tenantId = ''T1'',
     environment = ''login.windows.net'', homeAccountId = ''H1''\<rparr>"

definition accepting_provider :: "token_request \<Rightarrow> js_error + token_response" where
  "accepting_provider r = Inr \<lparr>resp_account = Some alice, resp_accessToken = ''TOKEN''\<rparr>"

definition rejecting_provider :: "token_request \<Rightarrow> js_error + token_response" where
  "rejecting_provider r = Inl (AuthError ''invalid_grant'' ''The code has already been redeemed'')"

definition authorize_url :: "auth_code_url_parameters \<Rightarrow> js_error + string" where
  "authorize_url ps = Inr ''https://login.microsoftonline.com/common/oauth2/v2.0/authorize''"

definition no_env :: env where
  "no_env = Map.empty"

definition callback_S1 :: query where
  "callback_S1 = \<lparr>code = Some ''ABC'', state = Some ''S1'', client_info = None\<rparr>"

definition callback_S2 :: query where
  "callback_S2 = \<lparr>code = Some ''ABC'', state = Some ''S2'', client_info = None\<rparr>"

definition pending_S1 :: session where
  "pending_S1 = sess (login no_env (Inr (''VERIFIER'', ''CHALLENGE'')) authorize_url empty_session)"

definition signed_in_S1 :: session where
  "signed_in_S1 = sess (signin no_env accepting_provider callback_S1 pending_S1)"

definition login_signin_events :: "event list" where
  "login_signin_events =
     [Login no_env (Inr (''VERIFIER'', ''CHALLENGE'')) authorize_url,
      Signin no_env accepting_provider callback_S1]"

definition graph_down :: "graph_request \<Rightarrow> js_error + jsval" where
  "graph_down r = Inl (HttpError ''ECONNREFUSED'')"

definition no_base64 :: "jsval \<Rightarrow> js_error + string" where
  "no_base64 v = Inl (TypeError ''The first argument must be of type string or Buffer'')"

section \<open>Facts about the handlers\<close>

lemma login_sess:
  "sess (login penv (Inr (v, c)) g s) =
     s\<lparr>pkceCodes := Some ((case pkceCodes s of
          None \<Rightarrow> \<lparr>challengeMethod = ''S256'', verifier = None, challenge = None\<rparr>
        | Some p \<Rightarrow> p)\<lparr>verifier := Some v, challenge := Some c\<rparr>)\<rparr>"
  by (simp add: login_def Let_def split: sum.splits)

lemma signin_success:
  "pkceCodes s = Some p \<Longrightarrow>
   acq (tokenRequest penv q p) = Inr \<lparr>resp_account = Some a, resp_accessToken = t\<rparr> \<Longrightarrow>
   signin penv acq q s =
     \<lparr>sess = s\<lparr>user := Some \<lparr>account = Some a, user_accessToken = t\<rparr>\<rparr>,
      resp = Redirect ''/account'', token_calls = [tokenRequest penv q p]\<rparr>"
  by (simp add: signin_def Let_def)

lemma signin_failure:
  "pkceCodes s = Some p \<Longrightarrow> acq (tokenRequest penv q p) = Inl e \<Longrightarrow>
   signin penv acq q s =
     \<lparr>sess = s, resp = RenderError ''Authentication Error'' e False None,
      token_calls = [tokenRequest penv q p]\<rparr>"
  by (simp add: signin_def Let_def)

lemma signin_pkceCodes: "pkceCodes (sess (signin penv acq q s)) = pkceCodes s"
  by (simp add: signin_def Let_def split: option.splits sum.splits)

lemma signin_token_calls:
  "pkceCodes s = Some p \<Longrightarrow> token_calls (signin penv acq q s) = [tokenRequest penv q p]"
  by (simp add: signin_def Let_def split: option.splits sum.splits)

lemma pending_S1_eq:
  "pending_S1 = \<lparr>pkceCodes = Some \<lparr>challengeMethod = ''S256'', verifier = Some ''VERIFIER'',
       challenge = Some ''CHALLENGE''\<rparr>, user = None, codeVerifier = None, accessToken = None\<rparr>"
  by (simp add: pending_S1_def login_sess empty_session_def)

lemma signed_in_S1_eq:
  "signed_in_S1 = \<lparr>pkceCodes = Some \<lparr>challengeMethod = ''S256'', verifier = Some ''VERIFIER'',
       challenge = Some ''CHALLENGE''\<rparr>,
     user = Some \<lparr>account = Some alice, user_accessToken = ''TOKEN''\<rparr>,
     codeVerifier = None, accessToken = None\<rparr>"
  by (simp add: signed_in_S1_def pending_S1_eq signin_def Let_def accepting_provider_def alice_def)

lemma run_login_signin: "run login_signin_events = signed_in_S1"
  by (simp add: run_def login_signin_events_def signed_in_S1_def pending_S1_def)

lemma login_inv: "session_inv s \<Longrightarrow> session_inv (sess (login penv g u s))"
  by (auto simp: session_inv_def login_def Let_def identity_present_def pkce_present_def
      session_user_account_def split: option.splits sum.splits prod.splits)

lemma signin_inv: "session_inv s \<Longrightarrow> session_inv (sess (signin penv acq q s))"
  by (auto simp: session_inv_def signin_def Let_def identity_present_def pkce_present_def
      session_user_account_def split: option.splits sum.splits)

lemma logout_inv: "session_inv (load_session (fst (logout st sid)) (Some sid))"
  by (simp add: session_inv_def logout_def session_destroy_def load_session_def empty_session_def
      identity_present_def pkce_present_def session_user_account_def)

lemma step_inv: "session_inv s \<Longrightarrow> session_inv (step s ev)"
  by (cases ev) (simp_all add: login_inv signin_inv logout_inv)

lemma foldl_step_inv: "session_inv s \<Longrightarrow> session_inv (foldl step s evs)"
  by (induction evs arbitrary: s) (simp_all add: step_inv)

lemma empty_session_inv: "session_inv empty_session"
  by (simp add: session_inv_def empty_session_def identity_present_def pkce_present_def
      session_user_account_def)

section \<open>The claims\<close>

text \<open>
  C1, as the code has it. The signin callback never reads the \<open>state\<close> query
  parameter: in both flows the outcome of a callback (session, response and token request)
  is the same whatever \<open>state\<close> value the request carries, and the router's session holds
  an identity afterwards exactly when it held one before or the provider accepted the
  token request. No correlation value is checked and no mismatch resets the session.
\<close>

theorem signin_ignores_state:
  "signin penv acq (q\<lparr>state := st\<rparr>) s = signin penv acq q s \<and>
   inline_signin acq (q\<lparr>state := st\<rparr>) s = inline_signin acq q s \<and>
   identity_present (sess (signin penv acq q s)) = (identity_present s \<or> provider_accepts penv acq q s)"
  by (auto simp: signin_def inline_signin_def tokenRequest_def inline_tokenRequest_def Let_def
      identity_present_def session_user_account_def provider_accepts_def
      split: option.splits sum.splits)

text \<open>
  The pending session \<open>S1\<close> at an accepting provider: the callback carrying
  \<open>state=S2\<close> has the outcome of the one carrying \<open>state=S1\<close>, an identity in the
  session.
\<close>

theorem signin_ignores_state_witness:
  "provider_accepts no_env accepting_provider callback_S1 pending_S1 \<and>
   signin no_env accepting_provider callback_S2 pending_S1
     = signin no_env accepting_provider callback_S1 pending_S1 \<and>
   identity_present (sess (signin no_env accepting_provider callback_S1 pending_S1))"
proof -
  have h: "provider_accepts no_env accepting_provider callback_S1 pending_S1"
    by (simp add: provider_accepts_def pending_S1_eq accepting_provider_def)
  have q: "callback_S1\<lparr>state := Some ''S2''\<rparr> = callback_S2"
    by (simp add: callback_S1_def callback_S2_def)
  show ?thesis
    using h signin_ignores_state [where penv = no_env and acq = accepting_provider
        and q = callback_S1 and st = "Some ''S2''" and s = pending_S1]
    by (simp add: q)
qed

text \<open>
  C1 on the scenario of a callback with \<open>state=S2\<close> for the session of cookie
  \<open>S1\<close>: the provider accepts the code and the session ends up with an identity.
\<close>

theorem signin_state_mismatch_authenticates:
  "state callback_S2 \<noteq> Some ''S1'' \<and>
   load_session (Map.empty(''S1'' \<mapsto> pending_S1)) (Some ''S1'') = pending_S1 \<and>
   identity_present (sess (signin no_env accepting_provider callback_S2
      (load_session (Map.empty(''S1'' \<mapsto> pending_S1)) (Some ''S1''))))"
  by (simp add: callback_S2_def load_session_def pending_S1_eq signin_def Let_def
      accepting_provider_def identity_present_def session_user_account_def)

text \<open>
  C2, as the code has it. The verifier stays in the session, so a second signin
  callback with the same code on the same session sends the same token request (same
  code, same stored verifier) to the provider once more, in both flows. It resolves to
  the provider's answer: when the provider rejects the request, the router renders the
  error page with that error and leaves the session as the first callback left it.
\<close>

theorem second_signin_recontacts_provider:
  "pkceCodes s = Some p \<Longrightarrow>
   token_calls (signin penv acq1 q s) = [tokenRequest penv q p] \<and>
   token_calls (signin penv acq2 q (sess (signin penv acq1 q s))) = [tokenRequest penv q p] \<and>
   token_calls (inline_signin acq2 q (sess (inline_signin acq1 q s))) = [inline_tokenRequest q s] \<and>
   (\<forall>e. acq2 (tokenRequest penv q p) = Inl e \<longrightarrow>
      signin penv acq2 q (sess (signin penv acq1 q s)) =
        \<lparr>sess = sess (signin penv acq1 q s),
         resp = RenderError ''Authentication Error'' e False None,
         token_calls = [tokenRequest penv q p]\<rparr>)"
  by (auto simp: signin_token_calls signin_pkceCodes signin_failure inline_signin_def
      inline_tokenRequest_def split: sum.splits)

text \<open>
  The session \<open>S1\<close> signs in and the same callback arrives again; the provider
  rejects the redeemed code.
\<close>

theorem second_signin_recontacts_provider_witness:
  "pkceCodes pending_S1 = Some \<lparr>challengeMethod = ''S256'', verifier = Some ''VERIFIER'',
       challenge = Some ''CHALLENGE''\<rparr> \<and>
   rejecting_provider (tokenRequest no_env callback_S1 \<lparr>challengeMethod = ''S256'',
       verifier = Some ''VERIFIER'', challenge = Some ''CHALLENGE''\<rparr>)
     = Inl (AuthError ''invalid_grant'' ''The code has already been redeemed'') \<and>
   signin no_env rejecting_provider callback_S1 signed_in_S1 =
     \<lparr>sess = signed_in_S1,
      resp = RenderError ''Authentication Error''
        (AuthError ''invalid_grant'' ''The code has already been redeemed'') False None,
      token_calls = [\<lparr>tr_code = Some ''ABC'', tr_scopes = [''user.read''], tr_redirectUri = None,
        tr_codeVerifier = Some ''VERIFIER'', tr_clientInfo = None\<rparr>]\<rparr>"
proof -
  have h: "pkceCodes pending_S1 = Some \<lparr>challengeMethod = ''S256'', verifier = Some ''VERIFIER'',
       challenge = Some ''CHALLENGE''\<rparr>"
    by (simp add: pending_S1_eq)
  show ?thesis
    using h second_signin_recontacts_provider [OF h, of no_env accepting_provider callback_S1
        rejecting_provider]
    by (simp add: rejecting_provider_def signed_in_S1_def tokenRequest_def callback_S1_def
        AUTH_SCOPES_def no_env_def)
qed

text \<open>
  C2 on that scenario: the second callback does send a token request.
\<close>

theorem second_signin_token_call:
  "token_calls (signin no_env rejecting_provider callback_S1
      (sess (signin no_env accepting_provider callback_S1 pending_S1))) \<noteq> []"
  by (simp add: signin_token_calls [where p = "\<lparr>challengeMethod = ''S256'',
       verifier = Some ''VERIFIER'', challenge = Some ''CHALLENGE''\<rparr>"] signin_pkceCodes pending_S1_eq)


text \<open>
  C3, as the code has it. After \<open>/login\<close> has stored the pair \<open>(v, c)\<close> and the
  provider accepts the token request of the callback (the query's code with the
  verifier \<open>v\<close>), the session holds the identity and the access token of the response
  and the browser is sent to \<open>/account\<close>; the PKCE object is still in the session,
  unchanged, with verifier \<open>v\<close> and challenge \<open>c\<close>.
\<close>

theorem login_then_signin_keeps_pkce:
  assumes acc: "acq \<lparr>tr_code = code q, tr_scopes = AUTH_SCOPES,
        tr_redirectUri = penv ''AUTH_REDIRECT_URI'',
        tr_codeVerifier = Some v, tr_clientInfo = client_info q\<rparr>
     = Inr \<lparr>resp_account = Some a, resp_accessToken = t\<rparr>"
  shows "identity_present (sess (signin penv acq q (sess (login penv (Inr (v, c)) g s)))) \<and>
   user (sess (signin penv acq q (sess (login penv (Inr (v, c)) g s))))
      = Some \<lparr>account = Some a, user_accessToken = t\<rparr> \<and>
   resp (signin penv acq q (sess (login penv (Inr (v, c)) g s))) = Redirect ''/account'' \<and>
   pkceCodes (sess (signin penv acq q (sess (login penv (Inr (v, c)) g s))))
      = pkceCodes (sess (login penv (Inr (v, c)) g s)) \<and>
   pkce_present (sess (signin penv acq q (sess (login penv (Inr (v, c)) g s)))) \<and>
   map_option verifier (pkceCodes (sess (signin penv acq q (sess (login penv (Inr (v, c)) g s)))))
      = Some (Some v) \<and>
   map_option challenge (pkceCodes (sess (signin penv acq q (sess (login penv (Inr (v, c)) g s)))))
      = Some (Some c)"
proof -
  define p where "p = (case pkceCodes s of
          None \<Rightarrow> \<lparr>challengeMethod = ''S256'', verifier = None, challenge = None\<rparr>
        | Some p \<Rightarrow> p)\<lparr>verifier := Some v, challenge := Some c\<rparr>"
  define s1 where "s1 = sess (login penv (Inr (v, c)) g s)"
  have s1: "s1 = s\<lparr>pkceCodes := Some p\<rparr>"
    by (simp add: s1_def p_def login_sess)
  have pk: "pkceCodes s1 = Some p"
    by (simp add: s1)
  have vp: "verifier p = Some v" "challenge p = Some c"
    by (simp_all add: p_def)
  have "acq (tokenRequest penv q p) = Inr \<lparr>resp_account = Some a, resp_accessToken = t\<rparr>"
    using acc by (simp add: tokenRequest_def vp)
  from signin_success [where acq = acq and s = s1 and p = p and penv = penv and q = q, OF pk this]
  have r: "signin penv acq q s1 =
     \<lparr>sess = s1\<lparr>user := Some \<lparr>account = Some a, user_accessToken = t\<rparr>\<rparr>,
      resp = Redirect ''/account'', token_calls = [tokenRequest penv q p]\<rparr>" .
  show ?thesis
    unfolding s1_def [symmetric] r
    by (simp add: pk vp identity_present_def pkce_present_def session_user_account_def)
qed

text \<open>
  The session \<open>S1\<close> logs in and signs in at an accepting provider.
\<close>

theorem login_then_signin_keeps_pkce_witness:
  "accepting_provider \<lparr>tr_code = code callback_S1, tr_scopes = AUTH_SCOPES,
        tr_redirectUri = no_env ''AUTH_REDIRECT_URI'',
        tr_codeVerifier = Some ''VERIFIER'', tr_clientInfo = client_info callback_S1\<rparr>
     = Inr \<lparr>resp_account = Some alice, resp_accessToken = ''TOKEN''\<rparr> \<and>
   user signed_in_S1 = Some \<lparr>account = Some alice, user_accessToken = ''TOKEN''\<rparr> \<and>
   map_option verifier (pkceCodes signed_in_S1) = Some (Some ''VERIFIER'')"
proof -
  have h: "accepting_provider \<lparr>tr_code = code callback_S1, tr_scopes = AUTH_SCOPES,
        tr_redirectUri = no_env ''AUTH_REDIRECT_URI'',
        tr_codeVerifier = Some ''VERIFIER'', tr_clientInfo = client_info callback_S1\<rparr>
     = Inr \<lparr>resp_account = Some alice, resp_accessToken = ''TOKEN''\<rparr>"
    by (simp add: accepting_provider_def)
  note th = login_then_signin_keeps_pkce [where acq = accepting_provider and q = callback_S1
        and penv = no_env and v = "''VERIFIER''" and a = alice and t = "''TOKEN''"
        and c = "''CHALLENGE''" and g = authorize_url and s = empty_session, OF h]
  show ?thesis
    unfolding signed_in_S1_def pending_S1_def using h th by blast
qed

text \<open>
  C3 on that scenario: the signed-in session still carries its PKCE pair.
\<close>

theorem signin_success_pkce_not_cleared:
  "resp (signin no_env accepting_provider callback_S1 pending_S1) = Redirect ''/account'' \<and>
   identity_present (sess (signin no_env accepting_provider callback_S1 pending_S1)) \<and>
   pkceCodes (sess (signin no_env accepting_provider callback_S1 pending_S1)) \<noteq> None \<and>
   pkce_present (sess (signin no_env accepting_provider callback_S1 pending_S1))"
  by (simp add: signin_pkceCodes pending_S1_eq signin_def Let_def accepting_provider_def
      identity_present_def pkce_present_def session_user_account_def)

text \<open>
  C4, as the code has it. Every path of the signin callback that does not end in
  the success redirect leaves the session exactly as it found it, in both flows: the
  stored verifier is kept, not erased.
\<close>

theorem signin_error_leaves_session:
  "(resp (signin penv acq q s) \<noteq> Redirect ''/account'' \<longrightarrow> sess (signin penv acq q s) = s) \<and>
   (resp (inline_signin acq q s) \<noteq> Redirect ''/'' \<longrightarrow> sess (inline_signin acq q s) = s)"
  by (auto simp: signin_def inline_signin_def Let_def split: option.splits sum.splits)

text \<open>
  The pending session \<open>S1\<close> at a provider that rejects the code.
\<close>

theorem signin_error_leaves_session_witness:
  "resp (signin no_env rejecting_provider callback_S1 pending_S1) \<noteq> Redirect ''/account'' \<and>
   sess (signin no_env rejecting_provider callback_S1 pending_S1) = pending_S1 \<and>
   resp (inline_signin rejecting_provider callback_S1 pending_S1) \<noteq> Redirect ''/'' \<and>
   sess (inline_signin rejecting_provider callback_S1 pending_S1) = pending_S1"
proof -
  have h1: "resp (signin no_env rejecting_provider callback_S1 pending_S1) \<noteq> Redirect ''/account''"
    by (simp add: signin_def pending_S1_eq rejecting_provider_def Let_def)
  have h2: "resp (inline_signin rejecting_provider callback_S1 pending_S1) \<noteq> Redirect ''/''"
    by (simp add: inline_signin_def rejecting_provider_def)
  show ?thesis
    using h1 h2 signin_error_leaves_session [of no_env rejecting_provider callback_S1 pending_S1]
    by simp
qed

text \<open>
  C4 on that scenario: the error page is rendered and the session is still without
  identity and with its verifier.
\<close>

theorem signin_error_keeps_verifier:
  "resp (signin no_env rejecting_provider callback_S1 pending_S1) =
     RenderError ''Authentication Error''
       (AuthError ''invalid_grant'' ''The code has already been redeemed'') False None \<and>
   \<not> identity_present (sess (signin no_env rejecting_provider callback_S1 pending_S1)) \<and>
   map_option verifier (pkceCodes (sess (signin no_env rejecting_provider callback_S1 pending_S1)))
     = Some (Some ''VERIFIER'')"
  by (simp add: signin_pkceCodes pending_S1_eq signin_def Let_def rejecting_provider_def
      identity_present_def session_user_account_def)

text \<open>
  C5, as the code has it. In every session reached from the empty session by
  requests to \<open>/login\<close>, the signin callback and \<open>/logout\<close>, an identity is present
  only together with a complete PKCE pair, and a stored PKCE object is complete. The
  reachable combinations are: neither, the PKCE pair alone, or both; never the identity
  alone.
\<close>

theorem run_identity_needs_pkce:
  "(identity_present (run evs) \<longrightarrow> pkce_present (run evs)) \<and>
   (pkceCodes (run evs) \<noteq> None \<longrightarrow> pkce_present (run evs))"
  using foldl_step_inv [OF empty_session_inv, of evs] by (simp add: run_def session_inv_def)

text \<open>
  The run of a login followed by an accepted signin.
\<close>

theorem run_identity_needs_pkce_witness:
  "identity_present (run login_signin_events) \<and> pkceCodes (run login_signin_events) \<noteq> None \<and>
   pkce_present (run login_signin_events)"
proof -
  have h1: "identity_present (run login_signin_events)"
    by (simp add: run_login_signin signed_in_S1_eq identity_present_def session_user_account_def)
  have h2: "pkceCodes (run login_signin_events) \<noteq> None"
    by (simp add: run_login_signin signed_in_S1_eq)
  show ?thesis
    using h1 h2 run_identity_needs_pkce [of login_signin_events] by simp
qed

text \<open>
  C5 on that run: the PKCE pair and the identity are both present.
\<close>

theorem run_pkce_and_identity_both:
  "\<not> (pkce_present (run login_signin_events) \<noteq> identity_present (run login_signin_events))"
  by (simp add: run_login_signin signed_in_S1_eq identity_present_def pkce_present_def
      session_user_account_def)

text \<open>
  C6, as the code has it. When \<open>ENTRA_APP_ID\<close> is unset or empty, neither entry
  point mounts a route of the authentication router, and the entry point that leaves
  authentication to the router registers no login, signin, logout or account route of
  its own or of the page router.
\<close>

theorem auth_router_not_mounted:
  "\<not> truthy (penv ''ENTRA_APP_ID'') \<Longrightarrow>
   Auth \<notin> snd ` set (server_routes penv metrics api todo) \<and>
   Auth \<notin> snd ` set (inline_server_routes penv metrics api todo) \<and>
   filter (\<lambda>r. fst r \<in> set auth_paths \<and> snd r \<in> {Entry, Pages, Auth})
     (server_routes penv metrics api todo) = []"
  by (auto simp: server_routes_def inline_server_routes_def mounted_tail_def pageRoutes_def
      auth_paths_def filter_empty_conv)

text \<open>
  Both entry points under an empty environment.
\<close>

theorem auth_router_not_mounted_witness:
  "\<not> truthy (no_env ''ENTRA_APP_ID'') \<and>
   Auth \<notin> snd ` set (server_routes no_env [] [''/api/weather''] []) \<and>
   Auth \<notin> snd ` set (inline_server_routes no_env [] [''/api/weather''] [])"
proof -
  have h: "\<not> truthy (no_env ''ENTRA_APP_ID'')"
    by (simp add: truthy_def no_env_def)
  show ?thesis
    using h auth_router_not_mounted [where penv = no_env and metrics = "[]"
        and api = "[''/api/weather'']" and todo = "[]", OF h]
    by simp
qed

text \<open>
  C6 on the entry point with the inline flow: under an empty environment its
  \<open>/login\<close> route is registered.
\<close>

theorem inline_login_registered_without_app_id:
  "\<not> truthy (no_env ''ENTRA_APP_ID'') \<and>
   (''/login'', Entry) \<in> set (inline_server_routes no_env [] [] []) \<and>
   ''/login'' \<in> set auth_paths"
  by (simp add: truthy_def no_env_def inline_server_routes_def auth_paths_def)

text \<open>
  C7. For every store and every session identifier, so for a session in any
  state, \<open>/logout\<close> removes the record from the store, and a following request to a
  guarded route that presents the same cookie is redirected to \<open>/login\<close>; the account
  page is not rendered. This holds for the router's logout and guard and for the inline
  ones.
\<close>

theorem logout_then_protected_redirects:
  "fst (logout st sid) sid = None \<and>
   protected_request (fst (logout st sid)) (Some sid) = Respond (Redirect ''/login'') \<and>
   account_route axios to_base64 (Some (load_session (fst (logout st sid)) (Some sid)))
     = Redirect ''/login'' \<and>
   fst (inline_logout penv enc st sid) sid = None \<and>
   inline_protected_request (fst (inline_logout penv enc st sid)) (Some sid)
     = Respond (Redirect ''/login'')"
  by (simp add: logout_def inline_logout_def session_destroy_def protected_request_def
      inline_protected_request_def load_session_def empty_session_def ensureAuthenticated_def
      inline_ensureAuthenticated_def session_user_account_def truthy_def account_route_def Let_def)

text \<open>
  C8, as the code has it. The two flows are not equivalent. The router's callback
  stores an accepted sign-in in \<open>user\<close> (account and access token) and changes nothing
  else; the inline callback stores it in the session's \<open>accessToken\<close> and changes
  nothing else. The router's guard lets through exactly the sessions whose \<open>user\<close> has
  an account, the inline guard exactly the sessions with a non-empty \<open>accessToken\<close>.
  The inline callback never writes \<open>user\<close>, the router's callback never writes the
  session's \<open>accessToken\<close>, and a sign-in through one flow never changes the verdict
  of the other flow's guard.
\<close>

theorem flows_write_disjoint_fields:
  "(pkceCodes s = Some p \<and> acq (tokenRequest penv q p) = Inr tr \<and> resp_account tr = Some a \<longrightarrow>
      sess (signin penv acq q s) =
        s\<lparr>user := Some \<lparr>account = Some a, user_accessToken = resp_accessToken tr\<rparr>\<rparr> \<and>
      snd (ensureAuthenticated (Some (sess (signin penv acq q s)))) = Next) \<and>
   (acq (inline_tokenRequest q s) = Inr tr \<longrightarrow>
      sess (inline_signin acq q s) = s\<lparr>accessToken := Some (resp_accessToken tr)\<rparr> \<and>
      (snd (inline_ensureAuthenticated (sess (inline_signin acq q s))) = Next)
        = (resp_accessToken tr \<noteq> [])) \<and>
   (snd (ensureAuthenticated (Some s)) = Next) = (\<exists>u b. user s = Some u \<and> account u = Some b) \<and>
   (snd (inline_ensureAuthenticated s) = Next) = (\<exists>t. accessToken s = Some t \<and> t \<noteq> []) \<and>
   user (sess (inline_signin acq q s)) = user s \<and>
   accessToken (sess (signin penv acq q s)) = accessToken s \<and>
   snd (ensureAuthenticated (Some (sess (inline_signin acq q s)))) = snd (ensureAuthenticated (Some s)) \<and>
   snd (inline_ensureAuthenticated (sess (signin penv acq q s))) = snd (inline_ensureAuthenticated s)"
proof -
  have router_store: "pkceCodes s = Some p \<and> acq (tokenRequest penv q p) = Inr tr \<and>
      resp_account tr = Some a \<longrightarrow>
      sess (signin penv acq q s) =
        s\<lparr>user := Some \<lparr>account = Some a, user_accessToken = resp_accessToken tr\<rparr>\<rparr> \<and>
      snd (ensureAuthenticated (Some (sess (signin penv acq q s)))) = Next"
    by (simp add: signin_def Let_def ensureAuthenticated_def session_user_account_def)
  have inline_store: "acq (inline_tokenRequest q s) = Inr tr \<longrightarrow>
      sess (inline_signin acq q s) = s\<lparr>accessToken := Some (resp_accessToken tr)\<rparr> \<and>
      (snd (inline_ensureAuthenticated (sess (inline_signin acq q s))) = Next)
        = (resp_accessToken tr \<noteq> [])"
    by (simp add: inline_signin_def inline_ensureAuthenticated_def truthy_def)
  have router_guard: "(snd (ensureAuthenticated (Some s)) = Next)
      = (\<exists>u b. user s = Some u \<and> account u = Some b)"
    by (auto simp: ensureAuthenticated_def session_user_account_def split: option.splits)
  have inline_guard: "(snd (inline_ensureAuthenticated s) = Next)
      = (\<exists>t. accessToken s = Some t \<and> t \<noteq> [])"
    by (auto simp: inline_ensureAuthenticated_def truthy_def split: option.splits)
  have frame: "user (sess (inline_signin acq q s)) = user s \<and>
      accessToken (sess (signin penv acq q s)) = accessToken s \<and>
      snd (ensureAuthenticated (Some (sess (inline_signin acq q s))))
        = snd (ensureAuthenticated (Some s)) \<and>
      snd (inline_ensureAuthenticated (sess (signin penv acq q s)))
        = snd (inline_ensureAuthenticated s)"
    by (auto simp: inline_signin_def signin_def Let_def ensureAuthenticated_def
        inline_ensureAuthenticated_def session_user_account_def split: option.splits sum.splits)
  from router_store inline_store router_guard inline_guard frame show ?thesis
    by blast
qed

text \<open>
  The pending session \<open>S1\<close> signs in through the router and the empty session signs in
  inline, both at the accepting provider.
\<close>

theorem flows_write_disjoint_fields_witness:
  "pkceCodes pending_S1 = Some \<lparr>challengeMethod = ''S256'', verifier = Some ''VERIFIER'',
       challenge = Some ''CHALLENGE''\<rparr> \<and>
   sess (signin no_env accepting_provider callback_S1 pending_S1) =
     pending_S1\<lparr>user := Some \<lparr>account = Some alice, user_accessToken = ''TOKEN''\<rparr>\<rparr> \<and>
   snd (ensureAuthenticated (Some (sess (signin no_env accepting_provider callback_S1 pending_S1))))
     = Next \<and>
   sess (inline_signin accepting_provider callback_S1 empty_session) =
     empty_session\<lparr>accessToken := Some ''TOKEN''\<rparr> \<and>
   snd (inline_ensureAuthenticated (sess (inline_signin accepting_provider callback_S1 empty_session)))
     = Next"
proof -
  have h1: "pkceCodes pending_S1 = Some \<lparr>challengeMethod = ''S256'', verifier = Some ''VERIFIER'',
       challenge = Some ''CHALLENGE''\<rparr>"
    by (simp add: pending_S1_eq)
  have h2: "accepting_provider (tokenRequest no_env callback_S1 \<lparr>challengeMethod = ''S256'',
       verifier = Some ''VERIFIER'', challenge = Some ''CHALLENGE''\<rparr>)
     = Inr \<lparr>resp_account = Some alice, resp_accessToken = ''TOKEN''\<rparr>"
    by (simp add: accepting_provider_def)
  have h3: "accepting_provider (inline_tokenRequest callback_S1 empty_session)
     = Inr \<lparr>resp_account = Some alice, resp_accessToken = ''TOKEN''\<rparr>"
    by (simp add: accepting_provider_def)
  note router = flows_write_disjoint_fields [where s = pending_S1 and penv = no_env
      and acq = accepting_provider and q = callback_S1 and a = alice
      and p = "\<lparr>challengeMethod = ''S256'', verifier = Some ''VERIFIER'',
         challenge = Some ''CHALLENGE''\<rparr>"
      and tr = "\<lparr>resp_account = Some alice, resp_accessToken = ''TOKEN''\<rparr>"]
  note inline = flows_write_disjoint_fields [where s = empty_session and penv = no_env
      and acq = accepting_provider and q = callback_S1 and a = alice
      and p = "\<lparr>challengeMethod = ''S256'', verifier = Some ''VERIFIER'',
         challenge = Some ''CHALLENGE''\<rparr>"
      and tr = "\<lparr>resp_account = Some alice, resp_accessToken = ''TOKEN''\<rparr>"]
  from router h1 h2
  have r: "sess (signin no_env accepting_provider callback_S1 pending_S1) =
     pending_S1\<lparr>user := Some \<lparr>account = Some alice, user_accessToken = ''TOKEN''\<rparr>\<rparr> \<and>
     snd (ensureAuthenticated (Some (sess (signin no_env accepting_provider callback_S1 pending_S1))))
       = Next"
    by (simp add: ensureAuthenticated_def session_user_account_def)
  from inline h3
  have i: "sess (inline_signin accepting_provider callback_S1 empty_session) =
     empty_session\<lparr>accessToken := Some ''TOKEN''\<rparr> \<and>
     snd (inline_ensureAuthenticated (sess (inline_signin accepting_provider callback_S1 empty_session)))
       = Next"
    by (simp add: inline_ensureAuthenticated_def truthy_def)
  from h1 r i show ?thesis
    by blast
qed

text \<open>
  C8 on two sessions: the one signed in inline passes the inline guard and is
  turned away by the router's guard, and the one signed in through the router passes the
  router's guard and is turned away by the inline guard.
\<close>

theorem inline_session_rejected_by_router_guard:
  "snd (inline_ensureAuthenticated (sess (inline_signin accepting_provider callback_S1 empty_session)))
     = Next \<and>
   snd (ensureAuthenticated (Some (sess (inline_signin accepting_provider callback_S1 empty_session))))
     = Respond (Redirect ''/login'') \<and>
   snd (ensureAuthenticated (Some signed_in_S1)) = Next \<and>
   snd (inline_ensureAuthenticated signed_in_S1) = Respond (Redirect ''/login'')"
  by (simp add: signed_in_S1_eq accepting_provider_def empty_session_def inline_signin_def
      inline_ensureAuthenticated_def ensureAuthenticated_def session_user_account_def truthy_def)

text \<open>
  C9. Both guards hand the session on unchanged; they redirect to \<open>/login\<close> when
  the session is not authenticated and let the request through otherwise.
\<close>

theorem ensureAuthenticated_frame:
  "fst (ensureAuthenticated so) = so \<and>
   snd (ensureAuthenticated so) =
     (if session_user_account so \<noteq> None then Next else Respond (Redirect ''/login'')) \<and>
   fst (inline_ensureAuthenticated s) = s \<and>
   snd (inline_ensureAuthenticated s) =
     (if inline_isAuthenticated s then Next else Respond (Redirect ''/login''))"
  by (simp add: ensureAuthenticated_def inline_ensureAuthenticated_def inline_isAuthenticated_def)

text \<open>
  C10. \<open>getUserDetails\<close> and \<open>getUserPhoto\<close> never throw; they return
  \<open>null\<close> when the access token is absent or empty and when the HTTP call of the
  helper fails, and then the account page of an authenticated session is still rendered,
  with empty details and no photo.
\<close>

theorem graph_helpers_return_null:
  "\<not> isl (getUserDetails axios tok) \<and> \<not> isl (getUserPhoto axios to_base64 tok) \<and>
   (\<not> truthy tok \<longrightarrow>
      getUserDetails axios tok = Inr JNull \<and> getUserPhoto axios to_base64 tok = Inr JNull) \<and>
   (tok = Some t \<and> isl (axios (details_graphReq t)) \<longrightarrow> getUserDetails axios tok = Inr JNull) \<and>
   (tok = Some t \<and> isl (axios (photo_graphReq t)) \<longrightarrow>
      getUserPhoto axios to_base64 tok = Inr JNull) \<and>
   (user s = Some u \<and> account u = Some a \<and> user_accessToken u = t \<and>
    isl (axios (details_graphReq t)) \<and> isl (axios (photo_graphReq t)) \<longrightarrow>
      account_route axios to_base64 (Some s) = RenderAccount (AccountOf a) t (JObject []) JNull)"
  by (auto simp: getUserDetails_def getUserPhoto_def truthy_def account_route_def
      ensureAuthenticated_def session_user_account_def js_falsy_def Let_def isl_def
      split: option.splits sum.splits)

text \<open>
  The helpers without a token and with a token while the Graph endpoint is down,
  and the account page of the signed-in session \<open>S1\<close>.
\<close>

theorem graph_helpers_return_null_witness:
  "getUserDetails graph_down None = Inr JNull \<and> getUserPhoto graph_down no_base64 None = Inr JNull \<and>
   getUserDetails graph_down (Some ''TOKEN'') = Inr JNull \<and>
   getUserPhoto graph_down no_base64 (Some ''TOKEN'') = Inr JNull \<and>
   account_route graph_down no_base64 (Some signed_in_S1)
     = RenderAccount (AccountOf alice) ''TOKEN'' (JObject []) JNull"
proof -
  have h1: "\<not> truthy None"
    by (simp add: truthy_def)
  have h2: "isl (graph_down (details_graphReq ''TOKEN''))" "isl (graph_down (photo_graphReq ''TOKEN''))"
    by (simp_all add: graph_down_def)
  have h3: "user signed_in_S1 = Some \<lparr>account = Some alice, user_accessToken = ''TOKEN''\<rparr>"
    by (simp add: signed_in_S1_eq)
  show ?thesis
    using h1 h2 h3
      graph_helpers_return_null [of graph_down None no_base64]
      graph_helpers_return_null [of graph_down "Some ''TOKEN''" no_base64 "''TOKEN''" signed_in_S1
        "\<lparr>account = Some alice, user_accessToken = ''TOKEN''\<rparr>" alice]
    by simp
qed

end
